theory Spec2Isabelle
  imports Complex_Main
begin

section \<open>Runtime values\<close>

text \<open>
  The operator stored in a \<open>UnaryOp\<close> node is a Python function. \<open>UnaryOp._apply\<close>
  tells three cases apart by identity: \<open>op.neg\<close>, \<open>op.not_\<close>, and any other function,
  which it calls. The third case names a host function by its index.
\<close>

datatype unop = OpNeg | OpNot | OpOther nat

text \<open>
  The values the evaluator handles are Python objects. \<open>None\<close>, \<open>bool\<close>, \<open>float\<close> and
  \<open>str\<close> are the literals the transformer builds; \<open>int\<close> is what Python's unary minus
  gives on a \<open>bool\<close>; callables and other objects reach a program through the context.
  A finite float other than negative zero is \<open>VFloat x\<close> for the real number \<open>x\<close> it
  denotes, so \<open>VFloat 0\<close> is \<open>0.0\<close>, and \<open>VFloat x\<close> stands for a float only when \<open>x\<close> is a
  binary64 number; negative zero, the two infinities and NaN have constructors of
  their own. An instance is a reference into a heap of objects.

  A callable is a host function \<open>Native n\<close>, the closure \<open>wrapper\<close> that
  \<open>UnaryOp.eval\<close> builds around a callable, or a method bound to its receiver.
\<close>

datatype val =
    VNone
  | VBool bool
  | VInt int
  | VFloat real
  | VNegZero
  | VPosInf
  | VNegInf
  | VNaN
  | VStr string
  | VFn callable
  | VObj nat
and callable =
    Native nat
  | Wrapper unop callable
  | Bound callable val

datatype type_error = OperandMustBeNumber | CallOfNonFunction | BadOperands

datatype error =
    TypeError type_error
  | NameError string
  | AttributeError string
  | UndefinedVariable string
  | HostError nat

section \<open>Context, heap and host\<close>

text \<open>
  Modelled from the spec: the class \<open>Ctx\<close> of module \<open>lox.ctx\<close> is not among the
  sources. Following the spec's Environment, a context is a mapping from identifier to
  value with an optional enclosing context.
\<close>

datatype ctx = Ctx (scope: "string \<rightharpoonup> val") (parent: "ctx option")

text \<open>
  Modelled from the spec: \<open>Ctx.__getitem__\<close>, the spec's \<open>get(name)\<close>, walks outward
  until the name is found; \<open>None\<close> stands for the \<open>KeyError\<close> that \<open>Var.eval\<close>
  catches.
\<close>

fun ctx_getitem :: "ctx \<Rightarrow> string \<Rightarrow> val option" where
  "ctx_getitem (Ctx sc par) k =
     (case sc k of
        Some v \<Rightarrow> Some v
      | None \<Rightarrow> (case par of None \<Rightarrow> None | Some p \<Rightarrow> ctx_getitem p k))"

text \<open>
  Modelled from the spec: \<open>Ctx.__setitem__\<close>, the spec's \<open>assign(name, value)\<close>, walks
  outward to the nearest scope where the name is already defined and updates it there;
  \<open>None\<close> stands for the failure when the name is absent from the whole chain.
\<close>

fun ctx_setitem :: "ctx \<Rightarrow> string \<Rightarrow> val \<Rightarrow> ctx option" where
  "ctx_setitem (Ctx sc par) k v =
     (case sc k of
        Some old \<Rightarrow> Some (Ctx (sc(k \<mapsto> v)) par)
      | None \<Rightarrow>
          (case par of
             None \<Rightarrow> None
           | Some p \<Rightarrow>
               (case ctx_setitem p k v of
                  None \<Rightarrow> None
                | Some p' \<Rightarrow> Some (Ctx sc (Some p')))))"

text \<open>
  A Python instance: its own attribute dictionary, and the namespaces of its class and
  of the class's bases in method-resolution order.
\<close>

record pyobj =
  attrs :: "string \<rightharpoonup> val"
  mro :: "(string \<rightharpoonup> val) list"

text \<open>
  The state an evaluation reads and changes: the context passed to \<open>eval\<close>, the heap
  of instances, and the texts written by \<open>print\<close>, one entry for each call.
\<close>

record state =
  ctx :: ctx
  heap :: "nat \<rightharpoonup> pyobj"
  out :: "string list"

type_synonym result = "(error + val) \<times> state"

text \<open>
  The operator of a \<open>BinOp\<close> node is one of the ten functions of module
  \<open>lox.runtime\<close> that the transformer stores in it.
\<close>

datatype binop =
  OpMul | OpTruediv | OpSub | OpAdd | OpGt | OpLt | OpGe | OpLe | OpEq | OpNe

text \<open>
  What the Python host supplies:
  \<^item> \<open>natives\<close>: the behaviour of each host function; it may change the state and may
    raise;
  \<^item> \<open>binds\<close>: whether a host function is a function written in Python, which becomes a
    bound method when it is found in a class, or a built-in, which does not;
  \<^item> \<open>type_attr\<close> and \<open>other_setattr\<close>: reading and writing an attribute of a value that
    is not an instance (a number or a string has the attributes of its built-in type and
    accepts none; a function object accepts attributes);
  \<^item> \<open>float_of_str\<close>: Python's \<open>float\<close> on a token that is not a small integer, rounded
    to the nearest float;
  \<^item> \<open>float_repr\<close>: the text \<open>str\<close> produces for a finite float that is not a small
    integer;
  \<^item> \<open>object_repr\<close>: what \<open>str\<close> does on a callable, on an instance and on an integer
    of more than 4300 digits, where it may raise;
  \<^item> \<open>nonfinite_binop\<close>: the binary operators on infinities and NaN.
\<close>

record host =
  natives :: "nat \<Rightarrow> val list \<Rightarrow> state \<Rightarrow> result"
  binds :: "nat \<Rightarrow> bool"
  type_attr :: "state \<Rightarrow> val \<Rightarrow> string \<Rightarrow> val option"
  other_setattr :: "val \<Rightarrow> string \<Rightarrow> val \<Rightarrow> state \<Rightarrow> state option"
  float_of_str :: "string \<Rightarrow> val"
  float_repr :: "real \<Rightarrow> string"
  object_repr :: "val \<Rightarrow> error + string"
  nonfinite_binop :: "binop \<Rightarrow> val \<Rightarrow> val \<Rightarrow> error + val"

section \<open>Syntax trees\<close>

text \<open>
  The expression classes of \<open>ast.py\<close> that define \<open>eval\<close>, with their fields in the
  order of the dataclasses. \<open>This\<close> and \<open>Super\<close> declare neither fields nor \<open>eval\<close>.
\<close>

datatype expr =
    BinOp expr expr binop
  | Var string
  | Literal val
  | And expr expr
  | Or expr expr
  | UnaryOp unop expr
  | Call expr "expr list"
  | Assign string expr
  | Getattr expr string
  | Setattr expr string expr

text \<open>\<open>Print\<close> is the only statement class with an \<open>eval\<close> method.\<close>

datatype stmt = Print expr

section \<open>Truthiness and unary operators\<close>

text \<open>\<open>is_truthy\<close>: \<open>False if val is False or val is None else True\<close>.\<close>

definition is_truthy :: "val \<Rightarrow> bool" where
  "is_truthy v = (if v = VBool False \<or> v = VNone then False else True)"

text \<open>Python's \<open>callable(val)\<close>.\<close>

fun is_callable :: "val \<Rightarrow> bool" where
  "is_callable (VFn f) = True"
| "is_callable v = False"

text \<open>
  Python's \<open>isinstance(val, (int, float))\<close>. \<open>bool\<close> is a subclass of \<open>int\<close>, so the
  test holds of \<open>True\<close> and \<open>False\<close>.
\<close>

fun isinstance_int_float :: "val \<Rightarrow> bool" where
  "isinstance_int_float (VInt i) = True"
| "isinstance_int_float (VFloat x) = True"
| "isinstance_int_float VNegZero = True"
| "isinstance_int_float VPosInf = True"
| "isinstance_int_float VNegInf = True"
| "isinstance_int_float VNaN = True"
| "isinstance_int_float (VBool b) = True"
| "isinstance_int_float v = False"

text \<open>
  Python's \<open>-val\<close> on the values that pass the test. On a float it flips the sign, so
  \<open>0.0\<close> becomes negative zero; a \<open>bool\<close> counts as the integer 0 or 1.
\<close>

fun py_neg :: "val \<Rightarrow> val" where
  "py_neg (VInt i) = VInt (- i)"
| "py_neg (VFloat x) = (if x = 0 then VNegZero else VFloat (- x))"
| "py_neg VNegZero = VFloat 0"
| "py_neg VPosInf = VNegInf"
| "py_neg VNegInf = VPosInf"
| "py_neg VNaN = VNaN"
| "py_neg (VBool b) = VInt (- (if b then 1 else 0))"
| "py_neg v = v"

text \<open>
  \<open>UnaryOp._apply\<close>. The second branch computes truthiness inline:
  \<open>val is not False and val is not None\<close>.
\<close>

fun UnaryOp_apply :: "host \<Rightarrow> unop \<Rightarrow> val \<Rightarrow> state \<Rightarrow> result" where
  "UnaryOp_apply H OpNeg v s =
     (if \<not> isinstance_int_float v then (Inl (TypeError OperandMustBeNumber), s)
      else (Inr (py_neg v), s))"
| "UnaryOp_apply H OpNot v s =
     (let truthy = (v \<noteq> VBool False \<and> v \<noteq> VNone) in (Inr (VBool (\<not> truthy)), s))"
| "UnaryOp_apply H (OpOther n) v s = natives H n [v] s"

text \<open>
  Calling a callable with positional arguments. The closure \<open>wrapper\<close> returns
  \<open>self._apply(val(*args, **kwargs))\<close>; a bound method passes its receiver first.
\<close>

fun invoke :: "host \<Rightarrow> callable \<Rightarrow> val list \<Rightarrow> state \<Rightarrow> result" where
  "invoke H (Native n) args s = natives H n args s"
| "invoke H (Wrapper opr f) args s =
     (case invoke H f args s of
        (Inl e, s') \<Rightarrow> (Inl e, s')
      | (Inr r, s') \<Rightarrow> UnaryOp_apply H opr r s')"
| "invoke H (Bound f self) args s = invoke H f (self # args) s"

section \<open>Binary operators\<close>

text \<open>
  Modelled from the spec: the variants of the spec's Value. Python's \<open>int\<close> and
  \<open>float\<close> both count as its Number, read as the number they denote.
\<close>

datatype variant = NumberV | StringV | BooleanV | NilV | CallableV | InstanceV

fun variant_of :: "val \<Rightarrow> variant" where
  "variant_of VNone = NilV"
| "variant_of (VBool b) = BooleanV"
| "variant_of (VInt i) = NumberV"
| "variant_of (VFloat x) = NumberV"
| "variant_of VNegZero = NumberV"
| "variant_of VPosInf = NumberV"
| "variant_of VNegInf = NumberV"
| "variant_of VNaN = NumberV"
| "variant_of (VStr t) = StringV"
| "variant_of (VFn f) = CallableV"
| "variant_of (VObj p) = InstanceV"

datatype number = Finite real | PlusInfinity | MinusInfinity | NotANumber

fun number_of :: "val \<Rightarrow> number option" where
  "number_of (VInt i) = Some (Finite (of_int i))"
| "number_of (VFloat x) = Some (Finite x)"
| "number_of VNegZero = Some (Finite 0)"
| "number_of VPosInf = Some PlusInfinity"
| "number_of VNegInf = Some MinusInfinity"
| "number_of VNaN = Some NotANumber"
| "number_of v = None"

text \<open>
  Modelled from the spec: the functions \<open>mul\<close>, \<open>truediv\<close>, \<open>sub\<close>, \<open>add\<close>, \<open>gt\<close>,
  \<open>lt\<close>, \<open>ge\<close>, \<open>le\<close>, \<open>eq\<close> and \<open>ne\<close> of module \<open>lox.runtime\<close> are not among the
  sources. Following the spec, arithmetic and comparison on two numbers give the
  number or Boolean and fail with a type error on any other operand; \<open>eq\<close> and \<open>ne\<close>
  compare by value within a variant and are false and true across variants. Division
  by zero, which the spec leaves open, is taken to fail with a type error. Of
  arithmetic and ordering on infinities and NaN the spec says nothing; there the
  result is the host's.
\<close>

fun runtime_arith :: "binop \<Rightarrow> real \<Rightarrow> real \<Rightarrow> error + val" where
  "runtime_arith OpMul a b = Inr (VFloat (a * b))"
| "runtime_arith OpTruediv a b =
     (if b = 0 then Inl (TypeError BadOperands) else Inr (VFloat (a / b)))"
| "runtime_arith OpSub a b = Inr (VFloat (a - b))"
| "runtime_arith OpAdd a b = Inr (VFloat (a + b))"
| "runtime_arith OpGt a b = Inr (VBool (a > b))"
| "runtime_arith OpLt a b = Inr (VBool (a < b))"
| "runtime_arith OpGe a b = Inr (VBool (a \<ge> b))"
| "runtime_arith OpLe a b = Inr (VBool (a \<le> b))"
| "runtime_arith OpEq a b = Inr (VBool (a = b))"
| "runtime_arith OpNe a b = Inr (VBool (a \<noteq> b))"

text \<open>
  Modelled from the spec: comparison by value within a variant, false across variants.
\<close>

definition value_eq :: "val \<Rightarrow> val \<Rightarrow> bool" where
  "value_eq a b =
     (if variant_of a \<noteq> variant_of b then False
      else (case (number_of a, number_of b) of
              (Some x, Some y) \<Rightarrow> x = y
            | _ \<Rightarrow> a = b))"

text \<open>
  Modelled from the spec: the operator of a \<open>BinOp\<close> applied to two values.
\<close>

definition runtime_binop :: "host \<Rightarrow> binop \<Rightarrow> val \<Rightarrow> val \<Rightarrow> error + val" where
  "runtime_binop H opr a b =
     (if opr = OpEq then Inr (VBool (value_eq a b))
      else if opr = OpNe then Inr (VBool (\<not> value_eq a b))
      else (case (number_of a, number_of b) of
              (Some (Finite x), Some (Finite y)) \<Rightarrow> runtime_arith opr x y
            | (Some x, Some y) \<Rightarrow> nonfinite_binop H opr a b
            | _ \<Rightarrow> Inl (TypeError BadOperands)))"

section \<open>Attribute access\<close>

text \<open>The first namespace of the method-resolution order that has the name wins.\<close>

fun lookup_mro :: "(string \<rightharpoonup> val) list \<Rightarrow> string \<Rightarrow> val option" where
  "lookup_mro [] a = None"
| "lookup_mro (ns # rest) a =
     (case ns a of Some v \<Rightarrow> Some v | None \<Rightarrow> lookup_mro rest a)"

text \<open>
  Whether a callable found in a class becomes a bound method: a function written in
  Python does, and so does the closure \<open>wrapper\<close>; a built-in function and a method
  that is already bound are returned as they are.
\<close>

fun binds_as_method :: "host \<Rightarrow> callable \<Rightarrow> bool" where
  "binds_as_method H (Native n) = binds H n"
| "binds_as_method H (Wrapper opr f) = True"
| "binds_as_method H (Bound f self) = False"

text \<open>
  Python's \<open>getattr(value, name)\<close>; \<open>None\<close> stands for its \<open>AttributeError\<close>. For
  an instance the attribute dictionary is searched first, then the class chain, where
  a Python function found becomes a method bound to the instance. Data descriptors,
  properties and \<open>__getattr__\<close> hooks are outside the model. The attributes of any
  other value are the host's.
\<close>

definition py_getattr :: "host \<Rightarrow> state \<Rightarrow> val \<Rightarrow> string \<Rightarrow> val option" where
  "py_getattr H s v a =
     (case v of
        VObj p \<Rightarrow>
          (case heap s p of
             None \<Rightarrow> None
           | Some ob \<Rightarrow>
               (case attrs ob a of
                  Some x \<Rightarrow> Some x
                | None \<Rightarrow>
                    (case lookup_mro (mro ob) a of
                       None \<Rightarrow> None
                     | Some (VFn f) \<Rightarrow>
                         Some (VFn (if binds_as_method H f then Bound f v else f))
                     | Some x \<Rightarrow> Some x)))
      | _ \<Rightarrow> type_attr H s v a)"

text \<open>
  Python's \<open>setattr(target, name, val)\<close>: on an instance it writes the attribute
  dictionary; on any other value the outcome is the host's. \<open>None\<close> stands for the
  \<open>AttributeError\<close> Python raises on a value that accepts no attribute.
\<close>

definition py_setattr :: "host \<Rightarrow> state \<Rightarrow> val \<Rightarrow> string \<Rightarrow> val \<Rightarrow> state option" where
  "py_setattr H s target a v =
     (case target of
        VObj p \<Rightarrow>
          (case heap s p of
             None \<Rightarrow> None
           | Some ob \<Rightarrow>
               Some (s\<lparr>heap := (heap s)(p \<mapsto> ob\<lparr>attrs := (attrs ob)(a \<mapsto> v)\<rparr>)\<rparr>))
      | _ \<Rightarrow> other_setattr H target a v s)"

section \<open>Evaluation of expressions\<close>

text \<open>
  The \<open>eval\<close> methods of the expression classes. An exception is the left injection
  and ends the evaluation with the state reached so far. \<open>eval_params\<close> is the list
  comprehension of \<open>Call.eval\<close>, evaluated from left to right.
\<close>

fun eval :: "host \<Rightarrow> expr \<Rightarrow> state \<Rightarrow> result"
and eval_params :: "host \<Rightarrow> expr list \<Rightarrow> state \<Rightarrow> (error + val list) \<times> state" where
  "eval H (BinOp left right opr) s =
     (case eval H left s of
        (Inl e, s1) \<Rightarrow> (Inl e, s1)
      | (Inr a, s1) \<Rightarrow>
          (case eval H right s1 of
             (Inl e, s2) \<Rightarrow> (Inl e, s2)
           | (Inr b, s2) \<Rightarrow> (runtime_binop H opr a b, s2)))"
| "eval H (Var name) s =
     (case ctx_getitem (ctx s) name of
        Some v \<Rightarrow> (Inr v, s)
      | None \<Rightarrow> (Inl (NameError name), s))"
| "eval H (Literal v) s = (Inr v, s)"
| "eval H (And left right) s =
     (case eval H left s of
        (Inl e, s1) \<Rightarrow> (Inl e, s1)
      | (Inr left_val, s1) \<Rightarrow>
          (if \<not> is_truthy left_val then (Inr left_val, s1) else eval H right s1))"
| "eval H (Or left right) s =
     (case eval H left s of
        (Inl e, s1) \<Rightarrow> (Inl e, s1)
      | (Inr left_val, s1) \<Rightarrow>
          (if is_truthy left_val then (Inr left_val, s1) else eval H right s1))"
| "eval H (UnaryOp opr right) s =
     (case eval H right s of
        (Inl e, s1) \<Rightarrow> (Inl e, s1)
      | (Inr v, s1) \<Rightarrow>
          (case v of
             VFn f \<Rightarrow> (Inr (VFn (Wrapper opr f)), s1)
           | _ \<Rightarrow> UnaryOp_apply H opr v s1))"
| "eval H (Call callee params) s =
     (case eval H callee s of
        (Inl e, s1) \<Rightarrow> (Inl e, s1)
      | (Inr fn, s1) \<Rightarrow>
          (case eval_params H params s1 of
             (Inl e, s2) \<Rightarrow> (Inl e, s2)
           | (Inr args, s2) \<Rightarrow>
               (case fn of
                  VFn f \<Rightarrow> invoke H f args s2
                | _ \<Rightarrow> (Inl (TypeError CallOfNonFunction), s2))))"
| "eval H (Assign name value) s =
     (case eval H value s of
        (Inl e, s1) \<Rightarrow> (Inl e, s1)
      | (Inr v, s1) \<Rightarrow>
          (case ctx_setitem (ctx s1) name v of
             None \<Rightarrow> (Inl (UndefinedVariable name), s1)
           | Some c \<Rightarrow> (Inr v, s1\<lparr>ctx := c\<rparr>)))"
| "eval H (Getattr obj attr) s =
     (case eval H obj s of
        (Inl e, s1) \<Rightarrow> (Inl e, s1)
      | (Inr v, s1) \<Rightarrow>
          (case py_getattr H s1 v attr of
             Some x \<Rightarrow> (Inr x, s1)
           | None \<Rightarrow> (Inl (AttributeError attr), s1)))"
| "eval H (Setattr obj name value) s =
     (case eval H obj s of
        (Inl e, s1) \<Rightarrow> (Inl e, s1)
      | (Inr target, s1) \<Rightarrow>
          (case eval H value s1 of
             (Inl e, s2) \<Rightarrow> (Inl e, s2)
           | (Inr v, s2) \<Rightarrow>
               (case py_setattr H s2 target name v of
                  Some s3 \<Rightarrow> (Inr v, s3)
                | None \<Rightarrow> (Inl (AttributeError name), s2))))"
| "eval_params H [] s = (Inr [], s)"
| "eval_params H (arg # rest) s =
     (case eval H arg s of
        (Inl e, s1) \<Rightarrow> (Inl e, s1)
      | (Inr v, s1) \<Rightarrow>
          (case eval_params H rest s1 of
             (Inl e, s2) \<Rightarrow> (Inl e, s2)
           | (Inr vs, s2) \<Rightarrow> (Inr (v # vs), s2)))"

section \<open>Statements\<close>

text \<open>Decimal digits of a natural number, as Python writes an \<open>int\<close>.\<close>

definition digit_char :: "nat \<Rightarrow> char" where
  "digit_char d = ''0123456789'' ! d"

function dec_nat :: "nat \<Rightarrow> string" where
  "dec_nat n = (if n < 10 then [digit_char n] else dec_nat (n div 10) @ [digit_char (n mod 10)])"
  by pat_completeness auto
termination
  by (relation "measure id") auto

declare dec_nat.simps [simp del]

definition dec_int :: "int \<Rightarrow> string" where
  "dec_int i = (if i < 0 then CHR ''-'' # dec_nat (nat (- i)) else dec_nat (nat i))"

text \<open>
  Python's \<open>str(value)\<close>, the text \<open>print\<close> writes. An integer is written with its
  digits (Python refuses one of more than 4300 digits unless configured otherwise). A
  float whose value is an integer below \<open>10 ^ 16\<close> in magnitude is written with its
  digits and a fractional part \<open>.0\<close>, negative zero as \<open>-0.0\<close>, the infinities as \<open>inf\<close>
  and \<open>-inf\<close>, NaN as \<open>nan\<close>; the host gives the text of any other float and of
  callables and instances.
\<close>

fun py_str :: "host \<Rightarrow> val \<Rightarrow> error + string" where
  "py_str H VNone = Inr ''None''"
| "py_str H (VBool b) = Inr (if b then ''True'' else ''False'')"
| "py_str H (VInt i) =
     (if length (dec_nat (nat \<bar>i\<bar>)) \<le> 4300 then Inr (dec_int i) else object_repr H (VInt i))"
| "py_str H (VFloat x) =
     Inr (if x = of_int \<lfloor>x\<rfloor> \<and> \<bar>x\<bar> < 10 ^ 16 then dec_int \<lfloor>x\<rfloor> @ ''.0''
          else float_repr H x)"
| "py_str H VNegZero = Inr ''-0.0''"
| "py_str H VPosInf = Inr ''inf''"
| "py_str H VNegInf = Inr ''-inf''"
| "py_str H VNaN = Inr ''nan''"
| "py_str H (VStr t) = Inr t"
| "py_str H v = object_repr H v"

text \<open>
  \<open>Print.eval\<close>: \<open>print(self.expr.eval(ctx))\<close>, with Python's built-in \<open>print\<close>, which
  writes the text of the value or passes on the exception of \<open>str\<close>.
\<close>

fun stmt_eval :: "host \<Rightarrow> stmt \<Rightarrow> state \<Rightarrow> (error + unit) \<times> state" where
  "stmt_eval H (Print e) s =
     (case eval H e s of
        (Inl er, s1) \<Rightarrow> (Inl er, s1)
      | (Inr v, s1) \<Rightarrow>
          (case py_str H v of
             Inl er \<Rightarrow> (Inl er, s1)
           | Inr text \<Rightarrow> (Inr (), s1\<lparr>out := out s1 @ [text]\<rparr>)))"

text \<open>\<open>Program.eval\<close>: the statements in order; an exception ends the loop.\<close>

fun Program_eval :: "host \<Rightarrow> stmt list \<Rightarrow> state \<Rightarrow> (error + unit) \<times> state" where
  "Program_eval H [] s = (Inr (), s)"
| "Program_eval H (st # stmts) s =
     (case stmt_eval H st s of
        (Inl er, s1) \<Rightarrow> (Inl er, s1)
      | (Inr u, s1) \<Rightarrow> Program_eval H stmts s1)"

section \<open>The transformer\<close>

text \<open>
  \<open>LoxTransformer.not_\<close> and \<open>LoxTransformer.neg\<close>: under a call the operator moves
  onto the callee.
\<close>

fun LoxTransformer_not :: "expr \<Rightarrow> expr" where
  "LoxTransformer_not (Call callee params) = Call (UnaryOp OpNot callee) params"
| "LoxTransformer_not right = UnaryOp OpNot right"

fun LoxTransformer_neg :: "expr \<Rightarrow> expr" where
  "LoxTransformer_neg (Call callee params) = Call (UnaryOp OpNeg callee) params"
| "LoxTransformer_neg right = UnaryOp OpNeg right"

text \<open>
  Python's \<open>float(token)\<close>. A token made of decimal digits whose value is at most
  \<open>2 ^ 53\<close> denotes a float exactly; on any other token the host gives the nearest
  float, which may be an infinity.
\<close>

definition digit_value :: "char \<Rightarrow> nat option" where
  "digit_value c =
     (if c = CHR ''0'' then Some 0 else if c = CHR ''1'' then Some 1
      else if c = CHR ''2'' then Some 2 else if c = CHR ''3'' then Some 3
      else if c = CHR ''4'' then Some 4 else if c = CHR ''5'' then Some 5
      else if c = CHR ''6'' then Some 6 else if c = CHR ''7'' then Some 7
      else if c = CHR ''8'' then Some 8 else if c = CHR ''9'' then Some 9
      else None)"

fun digits_value :: "string \<Rightarrow> nat \<Rightarrow> nat option" where
  "digits_value [] acc = Some acc"
| "digits_value (c # cs) acc =
     (case digit_value c of
        None \<Rightarrow> None
      | Some d \<Rightarrow> digits_value cs (10 * acc + d))"

definition py_float :: "host \<Rightarrow> string \<Rightarrow> val" where
  "py_float H token =
     (case (if token = [] then None else digits_value token 0) of
        None \<Rightarrow> float_of_str H token
      | Some n \<Rightarrow> (if n \<le> 2 ^ 53 then VFloat (of_nat n) else float_of_str H token))"

text \<open>
  The literal builders. \<open>NUMBER\<close> always builds a float; \<open>STRING\<close> drops the first
  and the last character of its token.
\<close>

definition NUMBER :: "host \<Rightarrow> string \<Rightarrow> expr" where
  "NUMBER H token = Literal (py_float H token)"

definition STRING :: "string \<Rightarrow> expr" where
  "STRING token = Literal (VStr (butlast (tl token)))"

definition NIL :: expr where
  "NIL = Literal VNone"

definition BOOL :: "string \<Rightarrow> expr" where
  "BOOL token = Literal (VBool (token = ''true''))"

section \<open>An example host and state\<close>

text \<open>
  A host with two Python functions: number 0 returns 3 whatever its arguments (as
  \<open>sqrt\<close> does on 9) and number 1 returns \<open>True\<close>. The state's global context binds
  \<open>f\<close> and \<open>t\<close> to them and \<open>x\<close> to a number; its heap has one instance of a class that
  defines \<open>greet\<close>. The other components of the host are placeholders: the examples
  below read no attribute of a value that is not an instance and use only tokens and
  floats whose text the model fixes.
\<close>

definition host0 :: host where
  "host0 =
     \<lparr>natives = (\<lambda>n args s.
        if n = 0 then (Inr (VFloat 3), s)
        else if n = 1 then (Inr (VBool True), s)
        else (Inl (HostError n), s)),
      binds = (\<lambda>n. True),
      type_attr = (\<lambda>s v a. None),
      other_setattr = (\<lambda>target a v s. None),
      float_of_str = (\<lambda>token. VPosInf),
      float_repr = (\<lambda>x. ''<float>''),
      object_repr = (\<lambda>v. Inr ''<object>''),
      nonfinite_binop = (\<lambda>opr a b. Inr VNaN)\<rparr>"

definition state0 :: state where
  "state0 =
     \<lparr>ctx = Ctx [''f'' \<mapsto> VFn (Native 0), ''t'' \<mapsto> VFn (Native 1), ''x'' \<mapsto> VFloat 1] None,
      heap = [0 \<mapsto> \<lparr>attrs = [''size'' \<mapsto> VFloat 2], mro = [[''greet'' \<mapsto> VFn (Native 0)]]\<rparr>],
      out = []\<rparr>"

section \<open>Auxiliary facts\<close>

lemma lookup_mro_None: "lookup_mro nss a = None \<longleftrightarrow> (\<forall>ns \<in> set nss. ns a = None)"
  by (induction nss) (auto split: option.splits)

lemma ctx_setitem_unbound: "ctx_getitem c k = None \<Longrightarrow> ctx_setitem c k v = None"
  by (induction c k v rule: ctx_setitem.induct) (auto split: option.splits)

lemma ctx_setitem_keeps_names:
  "ctx_setitem c k v = Some c' \<Longrightarrow> (ctx_getitem c' k' = None) = (ctx_getitem c k' = None)"
proof (induction c k v arbitrary: c' rule: ctx_setitem.induct)
  case (1 sc par k v)
  show ?case
  proof (cases "sc k")
    case (Some old)
    with "1.prems" have "c' = Ctx (sc(k \<mapsto> v)) par"
      by simp
    with Some show ?thesis
      by (cases "k' = k") simp_all
  next
    case None
    show ?thesis
    proof (cases par)
      case no_parent: None
      with None "1.prems" show ?thesis
        by simp
    next
      case (Some p)
      with None "1.prems" obtain p' where
        set: "ctx_setitem p k v = Some p'" and c': "c' = Ctx sc (Some p')"
        by (cases "ctx_setitem p k v") simp_all
      have "(ctx_getitem p' k' = None) = (ctx_getitem p k' = None)"
        using "1.IH" [OF None Some set] .
      with c' Some show ?thesis
        by (cases "sc k'") simp_all
    qed
  qed
qed

lemma number_of_variant: "number_of v = None \<longleftrightarrow> variant_of v \<noteq> NumberV"
  by (cases v) simp_all

lemma py_str_integral:
  assumes "\<bar>n\<bar> < 10 ^ 16"
  shows "py_str H (VFloat (of_int n)) = Inr (dec_int n @ ''.0'')"
proof -
  have "real_of_int \<bar>n\<bar> < real_of_int (10 ^ 16)"
    using assms by (simp only: of_int_less_iff)
  then have "\<bar>real_of_int n\<bar> < 10 ^ 16"
    by simp
  then show ?thesis
    by simp
qed

section \<open>Unary operators on callables\<close>

text \<open>
  When the operand of a \<open>UnaryOp\<close> evaluates to a callable, the operator is not
  applied: the result is a new callable and the state is the one the operand left.
  Invoked later with arguments, the new callable invokes the wrapped one on them and
  applies the operator to its result (an exception of the wrapped call passes through).
  Applied to such a result, \<open>Not\<close> gives the negated truthiness.
\<close>

lemma UnaryOp_wraps_callable:
  assumes "eval H right s = (Inr (VFn f), s')"
  shows "\<exists>g. eval H (UnaryOp opr right) s = (Inr (VFn g), s')
          \<and> (\<forall>args t. invoke H g args t =
                (case invoke H f args t of
                   (Inl e, t') \<Rightarrow> (Inl e, t')
                 | (Inr r, t') \<Rightarrow> UnaryOp_apply H opr r t'))
          \<and> (\<forall>r t. UnaryOp_apply H OpNot r t = (Inr (VBool (\<not> is_truthy r)), t))"
  using assms by (simp add: is_truthy_def)

lemma UnaryOp_wraps_callable_example:
  "eval host0 (UnaryOp OpNeg (Var ''f'')) state0 = (Inr (VFn (Wrapper OpNeg (Native 0))), state0)
   \<and> invoke host0 (Wrapper OpNeg (Native 0)) [VFloat 9] state0 = (Inr (VFloat (- 3)), state0)"
  by (simp add: state0_def host0_def)

text \<open>
  Claim C1. The new callable does not require the wrapped call's result to be
  numeric under \<open>Neg\<close>: a Boolean result passes the test
  \<open>isinstance(val, (int, float))\<close> of \<open>UnaryOp._apply\<close>. With \<open>t\<close> bound to a function
  that returns \<open>True\<close>, \<open>UnaryOp(op.neg, Var("t"))\<close> evaluates to a callable, and calling
  it, as the program \<open>-t()\<close> does, gives the integer \<open>-1\<close> and no type error.
\<close>

theorem Neg_wrapper_Boolean_no_error:
  "eval host0 (Call (Var ''t'') []) state0 = (Inr (VBool True), state0)
   \<and> eval host0 (UnaryOp OpNeg (Var ''t'')) state0
       = (Inr (VFn (Wrapper OpNeg (Native 1))), state0)
   \<and> invoke host0 (Wrapper OpNeg (Native 1)) [] state0 = (Inr (VInt (- 1)), state0)
   \<and> eval host0 (LoxTransformer_neg (Call (Var ''t'') [])) state0 = (Inr (VInt (- 1)), state0)"
  by (simp add: state0_def host0_def)

section \<open>Truthiness\<close>

text \<open>
  Claim C2. The truthiness coercion is false exactly on \<open>Boolean(false)\<close> and \<open>Nil\<close>,
  and true on every other value, among them the number zero and the empty string.
\<close>

theorem is_truthy_table:
  "(is_truthy v = False) = (v = VBool False \<or> v = VNone)
   \<and> is_truthy (VFloat 0) \<and> is_truthy (VInt 0) \<and> is_truthy (VStr [])
   \<and> is_truthy (VFn f) \<and> is_truthy (VObj p)"
  by (simp add: is_truthy_def)

theorem is_truthy_table_witness:
  "\<not> is_truthy (VBool False) \<and> \<not> is_truthy VNone \<and> is_truthy (VBool True)
   \<and> is_truthy (VFloat 0) \<and> is_truthy (VStr [])"
  using is_truthy_table [of "VBool False" "Native 0" 0] is_truthy_table [of VNone "Native 0" 0]
    is_truthy_table [of "VBool True" "Native 0" 0]
  by simp

section \<open>Short-circuit operators\<close>

text \<open>
  Claim C3. \<open>And\<close> evaluates its left operand; when that value is falsy, the result is
  that very value and the state is the one the left operand left, whatever the right
  operand is, so the right operand is not evaluated; otherwise the result is the
  evaluation of the right operand in that state. \<open>Or\<close> is the mirror image: a truthy
  left value is returned without evaluating the right operand.
\<close>

theorem And_Or_short_circuit:
  assumes "eval H left s = (Inr v, s')"
  shows "eval H (And left right) s = (if is_truthy v then eval H right s' else (Inr v, s'))
       \<and> eval H (Or left right) s = (if is_truthy v then (Inr v, s') else eval H right s')"
  using assms by simp

theorem And_Or_short_circuit_witness:
  "eval host0 (Literal VNone) state0 = (Inr VNone, state0)
   \<and> eval host0 (And (Literal VNone) (Assign ''x'' (Literal (VFloat 2)))) state0 = (Inr VNone, state0)
   \<and> eval host0 (Literal (VFloat 0)) state0 = (Inr (VFloat 0), state0)
   \<and> eval host0 (Or (Literal (VFloat 0)) (Assign ''x'' (Literal (VFloat 2)))) state0
       = (Inr (VFloat 0), state0)
   \<and> ctx_getitem (ctx state0) ''x'' = Some (VFloat 1)
   \<and> ctx_getitem (ctx (snd (eval host0 (Assign ''x'' (Literal (VFloat 2))) state0))) ''x''
       = Some (VFloat 2)"
  using And_Or_short_circuit [of host0 "Literal VNone" state0 VNone state0
      "Assign ''x'' (Literal (VFloat 2))"]
    And_Or_short_circuit [of host0 "Literal (VFloat 0)" state0 "VFloat 0" state0
      "Assign ''x'' (Literal (VFloat 2))"]
  by (simp add: is_truthy_def state0_def)

section \<open>Binary operators\<close>

text \<open>
  Claim C4. When the operands of a \<open>BinOp\<close> evaluate to values of differing variants,
  \<open>Eq\<close> yields false and \<open>Ne\<close> yields true; on operands of one variant both compare
  by value: the numbers denoted for two numbers, the values themselves otherwise.
\<close>

theorem Eq_Ne_variants:
  assumes "eval H left s = (Inr a, s1)" and "eval H right s1 = (Inr b, s2)"
  shows "eval H (BinOp left right OpEq) s = (Inr (VBool (value_eq a b)), s2)
       \<and> eval H (BinOp left right OpNe) s = (Inr (VBool (\<not> value_eq a b)), s2)
       \<and> (variant_of a \<noteq> variant_of b \<longrightarrow> \<not> value_eq a b)
       \<and> (variant_of a = variant_of b \<longrightarrow> variant_of a = NumberV \<longrightarrow>
            value_eq a b = (number_of a = number_of b))
       \<and> (variant_of a = variant_of b \<longrightarrow> variant_of a \<noteq> NumberV \<longrightarrow>
            value_eq a b = (a = b))"
proof -
  have "variant_of a \<noteq> variant_of b \<longrightarrow> \<not> value_eq a b"
    by (simp add: value_eq_def)
  moreover have "variant_of a = variant_of b \<longrightarrow> variant_of a = NumberV \<longrightarrow>
      value_eq a b = (number_of a = number_of b)"
    by (cases a; cases b) (simp_all add: value_eq_def)
  moreover have "variant_of a = variant_of b \<longrightarrow> variant_of a \<noteq> NumberV \<longrightarrow>
      value_eq a b = (a = b)"
    by (cases a; cases b) (simp_all add: value_eq_def)
  ultimately show ?thesis
    using assms by (simp add: runtime_binop_def)
qed

theorem Eq_Ne_variants_witness:
  "eval host0 (Literal (VFloat 1)) state0 = (Inr (VFloat 1), state0)
   \<and> eval host0 (Literal (VBool True)) state0 = (Inr (VBool True), state0)
   \<and> eval host0 (BinOp (Literal (VFloat 1)) (Literal (VBool True)) OpEq) state0
       = (Inr (VBool False), state0)
   \<and> eval host0 (BinOp (Literal (VFloat 1)) (Literal (VBool True)) OpNe) state0
       = (Inr (VBool True), state0)"
  using Eq_Ne_variants [of host0 "Literal (VFloat 1)" state0 "VFloat 1" state0
      "Literal (VBool True)" "VBool True" state0]
  by (simp add: value_eq_def)

text \<open>
  Claim C5. When the operands of an arithmetic \<open>BinOp\<close> (\<open>Add\<close>, \<open>Sub\<close>, \<open>Mul\<close>,
  \<open>Div\<close>) evaluate to values of which one is not a number, the evaluation fails with
  a type error and produces no value.
\<close>

theorem arithmetic_non_numeric:
  assumes "eval H left s = (Inr a, s1)" and "eval H right s1 = (Inr b, s2)"
    and "variant_of a \<noteq> NumberV \<or> variant_of b \<noteq> NumberV"
    and "opr \<in> {OpAdd, OpSub, OpMul, OpTruediv}"
  shows "eval H (BinOp left right opr) s = (Inl (TypeError BadOperands), s2)"
proof -
  have "number_of a = None \<or> number_of b = None"
    using assms(3) by (simp add: number_of_variant)
  then have "runtime_binop H opr a b = Inl (TypeError BadOperands)"
    using assms(4) by (auto simp: runtime_binop_def split: option.splits number.splits)
  with assms(1,2) show ?thesis by simp
qed

theorem arithmetic_non_numeric_witness:
  "eval host0 (Literal (VFloat 1)) state0 = (Inr (VFloat 1), state0)
   \<and> eval host0 (Literal (VStr ''a'')) state0 = (Inr (VStr ''a''), state0)
   \<and> eval host0 (BinOp (Literal (VFloat 1)) (Literal (VStr ''a'')) OpAdd) state0
       = (Inl (TypeError BadOperands), state0)"
  using arithmetic_non_numeric [of host0 "Literal (VFloat 1)" state0 "VFloat 1" state0
      "Literal (VStr ''a'')" "VStr ''a''" state0 OpAdd]
  by simp

section \<open>Assignment\<close>

text \<open>
  Claim C6. When the value of an \<open>Assign\<close> has been evaluated and the assigned name
  is bound nowhere in the scope chain, the evaluation fails with an undefined-variable
  error and leaves the state as the value's evaluation left it: no binding is created,
  and the name is still unbound afterwards.
\<close>

theorem Assign_undeclared:
  assumes "eval H value s = (Inr v, s1)" and "ctx_getitem (ctx s1) name = None"
  shows "eval H (Assign name value) s = (Inl (UndefinedVariable name), s1)
       \<and> ctx_getitem (ctx (snd (eval H (Assign name value) s))) name = None"
  using assms by (simp add: ctx_setitem_unbound)

theorem Assign_undeclared_witness:
  "eval host0 (Literal (VFloat 2)) state0 = (Inr (VFloat 2), state0)
   \<and> ctx_getitem (ctx state0) ''y'' = None
   \<and> eval host0 (Assign ''y'' (Literal (VFloat 2))) state0 = (Inl (UndefinedVariable ''y''), state0)"
  using Assign_undeclared [of host0 "Literal (VFloat 2)" state0 "VFloat 2" state0 "''y''"]
  by (simp add: state0_def)

text \<open>
  An assignment never changes which names are bound: whether it succeeds or fails, the
  names bound after it are those bound once its value was evaluated.
\<close>

lemma Assign_declares_nothing:
  assumes "eval H value s = (r, s1)" and "eval H (Assign name value) s = (r', s2)"
  shows "(ctx_getitem (ctx s2) k = None) = (ctx_getitem (ctx s1) k = None)"
proof (cases r)
  case (Inl e)
  with assms show ?thesis
    by simp
next
  case (Inr v)
  show ?thesis
  proof (cases "ctx_setitem (ctx s1) name v")
    case None
    with Inr assms show ?thesis
      by simp
  next
    case (Some c)
    with Inr assms have "ctx s2 = c"
      by auto
    with Some show ?thesis
      by (simp add: ctx_setitem_keeps_names)
  qed
qed

section \<open>Negation\<close>

text \<open>
  Claim C7. \<open>Neg\<close> on a Boolean operand does not fail: the test of \<open>UnaryOp._apply\<close>
  is \<open>isinstance(val, (int, float))\<close>, which a Python \<open>bool\<close> passes, so the program
  \<open>-true\<close> evaluates to the integer \<open>-1\<close> and \<open>-false\<close> to \<open>0\<close>.
\<close>

theorem Neg_Boolean_no_error:
  "eval H (LoxTransformer_neg (BOOL ''true'')) s = (Inr (VInt (- 1)), s)
   \<and> eval H (LoxTransformer_neg (BOOL ''false'')) s = (Inr (VInt 0), s)"
  by (simp add: BOOL_def)

text \<open>
  On the other operands the negation is as claimed: a number is negated (the float
  zero to negative zero), and a string, \<open>nil\<close> or an instance fails with the type error.
\<close>

lemma Neg_other_operands:
  assumes "eval H right s = (Inr v, s1)"
  shows "v = VFloat x \<Longrightarrow> x \<noteq> 0 \<Longrightarrow>
           eval H (UnaryOp OpNeg right) s = (Inr (VFloat (- x)), s1)"
    and "v = VFloat 0 \<Longrightarrow> eval H (UnaryOp OpNeg right) s = (Inr VNegZero, s1)"
    and "v = VInt i \<Longrightarrow> eval H (UnaryOp OpNeg right) s = (Inr (VInt (- i)), s1)"
    and "variant_of v \<in> {StringV, NilV, InstanceV} \<Longrightarrow>
           eval H (UnaryOp OpNeg right) s = (Inl (TypeError OperandMustBeNumber), s1)"
  using assms by (cases v; simp)+

section \<open>Printing\<close>

text \<open>
  Claim C8 as stated fails. The conventions \<open>true\<close>/\<open>false\<close>, \<open>nil\<close> and \<open>1\<close> do
  not hold of \<open>Print\<close>: the programs \<open>print true;\<close>, \<open>print nil;\<close> and \<open>print 1;\<close>
  write \<open>True\<close>, \<open>None\<close> and \<open>1.0\<close>.
\<close>

theorem Print_lox_conventions_counterexample:
  "out (snd (stmt_eval host0 (Print (BOOL ''true'')) state0)) = [''True'']
   \<and> out (snd (stmt_eval host0 (Print (BOOL ''true'')) state0)) \<noteq> [''true'']
   \<and> out (snd (stmt_eval host0 (Print NIL) state0)) = [''None'']
   \<and> out (snd (stmt_eval host0 (Print NIL) state0)) \<noteq> [''nil'']
   \<and> out (snd (stmt_eval host0 (Print (NUMBER host0 ''1'')) state0)) = [''1.0'']
   \<and> out (snd (stmt_eval host0 (Print (NUMBER host0 ''1'')) state0)) \<noteq> [''1'']"
  by (simp add: BOOL_def NIL_def NUMBER_def py_float_def digit_value_def state0_def
      dec_int_def dec_nat.simps digit_char_def)

text \<open>
  Claim C8, amended. A \<open>Print\<close> statement whose expression evaluates to a value writes
  Python's \<open>str\<close> of that value: a Boolean as \<open>True\<close> or \<open>False\<close>, \<open>nil\<close> as \<open>None\<close>,
  a string as its contents, a float whose value is an integer below \<open>10 ^ 16\<close> in
  magnitude as its decimal digits followed by \<open>.0\<close>, the float negative zero as
  \<open>-0.0\<close>, and a Python integer of at most 4300 digits as its decimal digits alone.
\<close>

theorem Print_python_str:
  assumes "eval H e s = (Inr v, s1)"
  shows "stmt_eval H (Print e) s =
           (case py_str H v of
              Inl er \<Rightarrow> (Inl er, s1)
            | Inr text \<Rightarrow> (Inr (), s1\<lparr>out := out s1 @ [text]\<rparr>))
       \<and> py_str H (VBool True) = Inr ''True'' \<and> py_str H (VBool False) = Inr ''False''
       \<and> py_str H VNone = Inr ''None''
       \<and> py_str H (VStr t) = Inr t
       \<and> (\<bar>n\<bar> < 10 ^ 16 \<longrightarrow> py_str H (VFloat (of_int n)) = Inr (dec_int n @ ''.0''))
       \<and> py_str H VNegZero = Inr ''-0.0''
       \<and> (length (dec_nat (nat \<bar>i\<bar>)) \<le> 4300 \<longrightarrow> py_str H (VInt i) = Inr (dec_int i))"
  using assms by (simp add: py_str_integral del: py_str.simps(4))

theorem Print_python_str_witness:
  "eval host0 (NUMBER host0 ''42'') state0 = (Inr (VFloat 42), state0)
   \<and> stmt_eval host0 (Print (NUMBER host0 ''42'')) state0 = (Inr (), state0\<lparr>out := [''42.0'']\<rparr>)
   \<and> py_str host0 (VInt (- 1)) = Inr ''-1''"
  using Print_python_str [where H = host0 and e = "NUMBER host0 ''42''" and s = state0
      and v = "VFloat 42" and ?s1.0 = state0 and n = 42 and t = "[]" and i = "- 1"]
  by (simp add: NUMBER_def py_float_def digit_value_def state0_def dec_int_def dec_nat.simps
      digit_char_def)

text \<open>
  The programs \<open>print -0;\<close>, \<open>print -7;\<close> and \<open>print -true;\<close> write \<open>-0.0\<close>, \<open>-7.0\<close>
  and \<open>-1\<close>.
\<close>

lemma Print_negated_literals:
  "out (snd (stmt_eval host0 (Print (LoxTransformer_neg (NUMBER host0 ''0''))) state0)) = [''-0.0'']
   \<and> out (snd (stmt_eval host0 (Print (LoxTransformer_neg (NUMBER host0 ''7''))) state0)) = [''-7.0'']
   \<and> out (snd (stmt_eval host0 (Print (LoxTransformer_neg (BOOL ''true''))) state0)) = [''-1'']"
  by (simp add: BOOL_def NUMBER_def py_float_def digit_value_def state0_def dec_int_def
      dec_nat.simps digit_char_def)

section \<open>Attribute lookup\<close>

text \<open>
  Claim C9. When the object of a \<open>Getattr\<close> evaluates to an instance and the
  attribute name is found neither in the instance's own attributes nor in any
  namespace of its class's method-resolution order, the evaluation fails with an
  attribute error.
\<close>

theorem Getattr_missing:
  assumes "eval H obj s = (Inr (VObj p), s1)" and "heap s1 p = Some ob"
    and "attrs ob attr = None" and "\<forall>ns \<in> set (mro ob). ns attr = None"
  shows "eval H (Getattr obj attr) s = (Inl (AttributeError attr), s1)"
proof -
  have "lookup_mro (mro ob) attr = None"
    using assms(4) by (simp add: lookup_mro_None)
  with assms(1-3) show ?thesis
    by (simp add: py_getattr_def)
qed

theorem Getattr_missing_witness:
  "eval host0 (Literal (VObj 0)) state0 = (Inr (VObj 0), state0)
   \<and> eval host0 (Getattr (Literal (VObj 0)) ''age'') state0 = (Inl (AttributeError ''age''), state0)"
  using Getattr_missing [of host0 "Literal (VObj 0)" state0 0 state0
      "\<lparr>attrs = [''size'' \<mapsto> VFloat 2], mro = [[''greet'' \<mapsto> VFn (Native 0)]]\<rparr>" "''age''"]
  by (simp add: state0_def)

text \<open>
  A name that is found is returned; a Python function found in the class is bound to
  the instance.
\<close>

lemma Getattr_found:
  "eval host0 (Getattr (Literal (VObj 0)) ''size'') state0 = (Inr (VFloat 2), state0)
   \<and> eval host0 (Getattr (Literal (VObj 0)) ''greet'') state0
       = (Inr (VFn (Bound (Native 0) (VObj 0))), state0)"
  by (simp add: state0_def host0_def py_getattr_def)

section \<open>Unary operators over calls\<close>

text \<open>
  Claim C10. The transformer rewrites a call under \<open>neg\<close> or \<open>not\<close> into the call
  of the operator applied to the callee, with the same arguments. When the callee
  evaluates to a callable, evaluating the rewritten form gives what applying the
  operator to the result of the original call gives, with the same final state; an
  exception of the original call is the exception of the rewritten form.
\<close>

theorem call_under_unary:
  assumes "eval H callee s = (Inr fn, s1)" and "is_callable fn"
  shows "LoxTransformer_neg (Call callee params) = Call (UnaryOp OpNeg callee) params
       \<and> LoxTransformer_not (Call callee params) = Call (UnaryOp OpNot callee) params
       \<and> eval H (Call (UnaryOp opr callee) params) s =
           (case eval H (Call callee params) s of
              (Inl e, s2) \<Rightarrow> (Inl e, s2)
            | (Inr r, s2) \<Rightarrow> UnaryOp_apply H opr r s2)"
  using assms by (cases fn) (auto split: prod.splits sum.splits)

theorem call_under_unary_witness:
  "eval host0 (Var ''f'') state0 = (Inr (VFn (Native 0)), state0)
   \<and> is_callable (VFn (Native 0))
   \<and> eval host0 (Call (Var ''f'') [Literal (VFloat 9)]) state0 = (Inr (VFloat 3), state0)
   \<and> eval host0 (LoxTransformer_neg (Call (Var ''f'') [Literal (VFloat 9)])) state0
       = (Inr (VFloat (- 3)), state0)"
  using call_under_unary [of host0 "Var ''f''" state0 "VFn (Native 0)" state0 "[Literal (VFloat 9)]" OpNeg]
  by (simp add: state0_def host0_def)

text \<open>
  When the original call returns a value that is not itself callable, the rewritten
  form also agrees with the operator node placed over the whole call.
\<close>

lemma call_under_unary_unrewritten:
  assumes "eval H callee s = (Inr fn, s1)" and "is_callable fn"
    and "eval H (Call callee params) s = (Inr r, s2)" and "\<not> is_callable r"
  shows "eval H (Call (UnaryOp opr callee) params) s = eval H (UnaryOp opr (Call callee params)) s"
proof -
  have "eval H (UnaryOp opr (Call callee params)) s = UnaryOp_apply H opr r s2"
    using assms(3,4) by (cases r) simp_all
  moreover have "eval H (Call (UnaryOp opr callee) params) s = UnaryOp_apply H opr r s2"
    using assms(1-3) by (cases fn) (auto split: prod.splits sum.splits)
  ultimately show ?thesis
    by simp
qed

end
